theory Spec2Isabelle
  imports Complex_Main "HOL-Library.Sublist" "HOL-Library.Multiset"
begin

section \<open>Python values and the operations the pipeline applies to them\<close>

text \<open>
  \<^verbatim>\<open>json.load\<close> yields \<^verbatim>\<open>None\<close>, booleans, integers, floats, strings, lists and
  dictionaries. A dictionary is kept as the list of its items; a key is looked up with
  \<open>map_of\<close>. Strings are character lists, one \<open>char\<close> for one character of the Python
  string. Floats are the finite JSON numbers. Every operation that raises in Python
  returns \<open>Inl\<close> of the exception.
\<close>

datatype json =
    JNull
  | JBool bool
  | JInt int
  | JFloat rat
  | JStr string
  | JArr "json list"
  | JObj "(string \<times> json) list"

datatype constraint = NotNull | Unique | ForeignKey

datatype py_error =
    AttributeError
  | TypeError
  | IndexError
  | KeyError
  | ValueError
  | OSError
  | JSONDecodeError
  | IntegrityError constraint
  | InterfaceError
  | OperationalError
  | RowCountMismatch
  | ForeignKeyTestFailed

type_synonym 'a result = "py_error + 'a"

type_synonym pydict = "(string \<times> json) list"

text \<open>\<^verbatim>\<open>d.get(k)\<close> on a dictionary.\<close>

definition dict_get :: "pydict \<Rightarrow> string \<Rightarrow> json" where
  "dict_get d k = (case map_of d k of None \<Rightarrow> JNull | Some v \<Rightarrow> v)"

definition andthen :: "'a result \<Rightarrow> ('a \<Rightarrow> 'b result) \<Rightarrow> 'b result" where
  "andthen m f = (case m of Inl e \<Rightarrow> Inl e | Inr x \<Rightarrow> f x)"

text \<open>Truth value of an object, as \<^verbatim>\<open>not x\<close> and \<^verbatim>\<open>if x\<close> test it.\<close>

fun truthy :: "json \<Rightarrow> bool" where
  "truthy JNull = False"
| "truthy (JBool b) = b"
| "truthy (JInt i) = (i \<noteq> 0)"
| "truthy (JFloat f) = (f \<noteq> 0)"
| "truthy (JStr s) = (s \<noteq> [])"
| "truthy (JArr xs) = (xs \<noteq> [])"
| "truthy (JObj kvs) = (kvs \<noteq> [])"

text \<open>\<^verbatim>\<open>x.get(k, d)\<close>: only a dictionary has the method.\<close>

fun py_get :: "json \<Rightarrow> string \<Rightarrow> json \<Rightarrow> json result" where
  "py_get (JObj kvs) k d = Inr (case map_of kvs k of None \<Rightarrow> d | Some v \<Rightarrow> v)"
| "py_get _ k d = Inl AttributeError"

text \<open>\<^verbatim>\<open>x[k]\<close> for a string key \<open>k\<close>.\<close>

fun py_getitem :: "json \<Rightarrow> string \<Rightarrow> json result" where
  "py_getitem (JObj kvs) k = (case map_of kvs k of None \<Rightarrow> Inl KeyError | Some v \<Rightarrow> Inr v)"
| "py_getitem _ k = Inl TypeError"

text \<open>\<^verbatim>\<open>len(x)\<close>.\<close>

fun py_len :: "json \<Rightarrow> int result" where
  "py_len (JStr s) = Inr (int (length s))"
| "py_len (JArr xs) = Inr (int (length xs))"
| "py_len (JObj kvs) = Inr (int (length (remdups (map fst kvs))))"
| "py_len _ = Inl TypeError"

text \<open>
  \<^verbatim>\<open>x[i]\<close> for an integer \<open>i\<close>: a negative index counts from the end, an index out
  of range raises \<^verbatim>\<open>IndexError\<close>, and no dictionary read from JSON has an integer key.
\<close>

definition seq_item :: "'a list \<Rightarrow> int \<Rightarrow> 'a result" where
  "seq_item xs i =
     (if 0 \<le> i \<and> i < int (length xs) then Inr (xs ! nat i)
      else if i < 0 \<and> - int (length xs) \<le> i then Inr (xs ! nat (int (length xs) + i))
      else Inl IndexError)"

fun py_item :: "json \<Rightarrow> int \<Rightarrow> json result" where
  "py_item (JArr xs) i = seq_item xs i"
| "py_item (JStr s) i = andthen (seq_item s i) (\<lambda>c. Inr (JStr [c]))"
| "py_item (JObj kvs) i = Inl KeyError"
| "py_item _ i = Inl TypeError"

text \<open>\<^verbatim>\<open>for x in v\<close>: the items of a list, the characters of a string, the keys of a
  dictionary.\<close>

fun py_iter :: "json \<Rightarrow> json list result" where
  "py_iter (JArr xs) = Inr xs"
| "py_iter (JStr s) = Inr (map (\<lambda>c. JStr [c]) s)"
| "py_iter (JObj kvs) = Inr (map JStr (remdups (map fst kvs)))"
| "py_iter _ = Inl TypeError"

text \<open>\<^verbatim>\<open>k in v\<close> for a string \<open>k\<close>: substring of a string, member of a list, key of a
  dictionary.\<close>

fun py_contains :: "string \<Rightarrow> json \<Rightarrow> bool result" where
  "py_contains k (JStr s) = Inr (sublist k s)"
| "py_contains k (JArr xs) = Inr (JStr k \<in> set xs)"
| "py_contains k (JObj kvs) = Inr (k \<in> set (map fst kvs))"
| "py_contains k _ = Inl TypeError"

text \<open>\<^verbatim>\<open>s.split(sep)\<close>: the pieces between the occurrences of \<open>sep\<close>, found from the
  left.\<close>

function split_on :: "string \<Rightarrow> string \<Rightarrow> string list" where
  "split_on sep s =
     (if sep = [] \<or> s = [] then [s]
      else if prefix sep s then [] # split_on sep (drop (length sep) s)
      else (case split_on sep (tl s) of
              [] \<Rightarrow> [[hd s]]
            | p # ps \<Rightarrow> (hd s # p) # ps))"
  by pat_completeness auto
termination
  by (relation "measure (\<lambda>(sep, s). length s)") auto

declare split_on.simps [simp del]

text \<open>\<^verbatim>\<open>v.split(sep)[-1]\<close>: only a string has the method, and an empty separator is
  refused.\<close>

fun py_split_last :: "json \<Rightarrow> string \<Rightarrow> json result" where
  "py_split_last (JStr s) sep =
     (if sep = [] then Inl ValueError else Inr (JStr (last (split_on sep s))))"
| "py_split_last _ sep = Inl AttributeError"

text \<open>Decimal digits of a number, and \<^verbatim>\<open>str(x)\<close> as an f-string inserts it. The text
  Python prints for a float, a list or a dictionary is given by \<open>fmt\<close>.\<close>

definition digit :: "nat \<Rightarrow> char" where
  "digit n = ''0123456789'' ! n"

fun decimal :: "nat \<Rightarrow> string" where
  "decimal n = (if 10 \<le> n then decimal (n div 10) @ [digit (n mod 10)] else [digit n])"

declare decimal.simps [simp del]

definition string_of_int :: "int \<Rightarrow> string" where
  "string_of_int i = (if i < 0 then CHR ''-'' # decimal (nat (- i)) else decimal (nat i))"

fun py_str :: "(json \<Rightarrow> string) \<Rightarrow> json \<Rightarrow> string" where
  "py_str fmt JNull = ''None''"
| "py_str fmt (JBool b) = (if b then ''True'' else ''False'')"
| "py_str fmt (JInt i) = string_of_int i"
| "py_str fmt (JStr s) = s"
| "py_str fmt v = fmt v"

section \<open>Value extractors\<close>

definition extract_reference_id :: "json \<Rightarrow> json result" where
  "extract_reference_id reference_dict =
     (if \<not> truthy reference_dict then Inr JNull
      else andthen (py_get reference_dict ''reference'' (JStr '''')) (\<lambda>reference.
           andthen (py_contains ''urn:uuid:'' reference) (\<lambda>urn.
           if urn then py_split_last reference ''urn:uuid:''
           else andthen (py_contains ''/'' reference) (\<lambda>slash.
                if slash then py_split_last reference ''/''
                else Inr reference))))"

definition safe_get_coding :: "json \<Rightarrow> int \<Rightarrow> (json \<times> json) result" where
  "safe_get_coding codeable_concept index =
     (if \<not> truthy codeable_concept then Inr (JNull, JNull)
      else andthen (py_get codeable_concept ''coding'' (JArr [])) (\<lambda>coding_list.
           if \<not> truthy coding_list then Inr (JNull, JNull)
           else andthen (py_len coding_list) (\<lambda>n.
                if n \<le> index then Inr (JNull, JNull)
                else andthen (py_item coding_list index) (\<lambda>coding.
                     andthen (py_get coding ''code'' JNull) (\<lambda>code.
                     andthen (py_get coding ''display'' JNull) (\<lambda>display.
                     Inr (code, display)))))))"

text \<open>The inner loop of the two extension resolvers: the first nested extension tagged
  \<^verbatim>\<open>text\<close> ends the search with its \<^verbatim>\<open>valueString\<close>.\<close>

fun find_text :: "json list \<Rightarrow> json option result" where
  "find_text [] = Inr None"
| "find_text (inner_ext # rest) =
     andthen (py_get inner_ext ''url'' JNull) (\<lambda>url.
     if url = JStr ''text''
     then andthen (py_get inner_ext ''valueString'' JNull) (\<lambda>v. Inr (Some v))
     else find_text rest)"

fun find_extension :: "string \<Rightarrow> json list \<Rightarrow> json result" where
  "find_extension marker [] = Inr JNull"
| "find_extension marker (ext # rest) =
     andthen (py_get ext ''url'' (JStr '''')) (\<lambda>url.
     andthen (py_contains marker url) (\<lambda>hit.
     if hit
     then andthen (py_get ext ''extension'' (JArr [])) (\<lambda>inner_extensions.
          andthen (py_iter inner_extensions) (\<lambda>inner.
          andthen (find_text inner) (\<lambda>found.
          case found of Some v \<Rightarrow> Inr v | None \<Rightarrow> find_extension marker rest)))
     else find_extension marker rest))"

definition extract_race :: "json \<Rightarrow> json result" where
  "extract_race patient_resource =
     andthen (py_get patient_resource ''extension'' (JArr [])) (\<lambda>extensions.
     andthen (py_iter extensions) (\<lambda>exts.
     find_extension ''us-core-race'' exts))"

definition extract_ethnicity :: "json \<Rightarrow> json result" where
  "extract_ethnicity patient_resource =
     andthen (py_get patient_resource ''extension'' (JArr [])) (\<lambda>extensions.
     andthen (py_iter extensions) (\<lambda>exts.
     find_extension ''us-core-ethnicity'' exts))"

section \<open>Resource parsers\<close>

text \<open>
  A source file is its path together with what \<^verbatim>\<open>open\<close> and \<^verbatim>\<open>json.load\<close> give for it:
  the bundle, or the exception of an unreadable or malformed file. A parsed record is the
  dictionary the parser appends; a data frame is the list of its records, in order. The
  body of the \<^verbatim>\<open>try\<close> of one file yields the records appended before it ended, and the
  exception that ended it, if one did.
\<close>

type_synonym source_file = "string \<times> json result"

type_synonym outcome = "pydict list \<times> py_error option"

definition attempt :: "pydict list result \<Rightarrow> outcome" where
  "attempt m = (case m of Inl e \<Rightarrow> ([], Some e) | Inr rs \<Rightarrow> (rs, None))"

text \<open>The resource of an entry, when it is of the wanted type.\<close>

definition resource_of_type :: "string \<Rightarrow> json \<Rightarrow> json option result" where
  "resource_of_type kind entry =
     andthen (py_get entry ''resource'' (JObj [])) (\<lambda>resource.
     andthen (py_get resource ''resourceType'' JNull) (\<lambda>rt.
     if rt \<noteq> JStr kind then Inr None else Inr (Some resource)))"

text \<open>\<^verbatim>\<open>xs[0] if xs else {}\<close>\<close>

definition first_or_empty :: "json \<Rightarrow> json result" where
  "first_or_empty xs = (if truthy xs then py_item xs 0 else Inr (JObj []))"

definition patient_record :: "json \<Rightarrow> pydict result" where
  "patient_record resource =
     andthen (py_get resource ''name'' (JArr [JObj []])) (\<lambda>name_list.
     andthen (first_or_empty name_list) (\<lambda>name.
     andthen (py_get name ''given'' (JArr [JStr ''''])) (\<lambda>given.
     andthen (py_item given 0) (\<lambda>given_name.
     andthen (py_get name ''family'' (JStr '''')) (\<lambda>family_name.
     andthen (py_get resource ''address'' (JArr [JObj []])) (\<lambda>address_list.
     andthen (first_or_empty address_list) (\<lambda>address.
     andthen (py_get resource ''id'' JNull) (\<lambda>ident.
     andthen (py_get resource ''gender'' JNull) (\<lambda>gender.
     andthen (py_get resource ''birthDate'' JNull) (\<lambda>birth_date.
     andthen (extract_race resource) (\<lambda>race.
     andthen (extract_ethnicity resource) (\<lambda>ethnicity.
     andthen (py_get address ''city'' JNull) (\<lambda>city.
     andthen (py_get address ''state'' JNull) (\<lambda>state.
     Inr [(''id'', ident), (''given_name'', given_name), (''family_name'', family_name),
          (''gender'', gender), (''birth_date'', birth_date), (''race'', race),
          (''ethnicity'', ethnicity), (''city'', city), (''state'', state)]))))))))))))))"

text \<open>The entry loop of the patient parser leaves at the first patient resource.\<close>

fun patient_entries :: "json list \<Rightarrow> outcome" where
  "patient_entries [] = ([], None)"
| "patient_entries (entry # rest) =
     (case resource_of_type ''Patient'' entry of
        Inl e \<Rightarrow> ([], Some e)
      | Inr None \<Rightarrow> patient_entries rest
      | Inr (Some resource) \<Rightarrow>
          (case patient_record resource of
             Inl e \<Rightarrow> ([], Some e)
           | Inr r \<Rightarrow> ([r], None)))"

text \<open>The entry loop of the other parsers goes through every entry; an exception ends it
  and keeps what was appended.\<close>

fun entries_loop :: "(json \<Rightarrow> outcome) \<Rightarrow> json list \<Rightarrow> outcome" where
  "entries_loop step [] = ([], None)"
| "entries_loop step (entry # rest) =
     (case step entry of
        (rs, Some e) \<Rightarrow> (rs, Some e)
      | (rs, None) \<Rightarrow> (case entries_loop step rest of (rs', err) \<Rightarrow> (rs @ rs', err)))"

definition condition_record :: "json \<Rightarrow> pydict result" where
  "condition_record resource =
     andthen (py_get resource ''code'' JNull) (\<lambda>c.
     andthen (safe_get_coding c 0) (\<lambda>(code, display).
     andthen (py_get resource ''clinicalStatus'' JNull) (\<lambda>cs.
     andthen (safe_get_coding cs 0) (\<lambda>(clinical_status_code, _).
     andthen (py_get resource ''id'' JNull) (\<lambda>ident.
     andthen (py_get resource ''subject'' JNull) (\<lambda>subject.
     andthen (extract_reference_id subject) (\<lambda>patient_id.
     andthen (py_get resource ''onsetDateTime'' JNull) (\<lambda>onset_date.
     Inr [(''id'', ident), (''patient_id'', patient_id), (''code'', code),
          (''display'', display), (''clinical_status'', clinical_status_code),
          (''onset_date'', onset_date)]))))))))"

definition condition_entry :: "json \<Rightarrow> outcome" where
  "condition_entry entry =
     attempt (andthen (resource_of_type ''Condition'' entry) (\<lambda>found.
       case found of
         None \<Rightarrow> Inr []
       | Some resource \<Rightarrow> andthen (condition_record resource) (\<lambda>r. Inr [r])))"

text \<open>The first coding of the first item of a list field, \<^verbatim>\<open>None\<close> for an empty or
  absent list (the category of an observation, the type of an encounter).\<close>

definition first_coding :: "json \<Rightarrow> (json \<times> json) result" where
  "first_coding xs =
     (if truthy xs then andthen (py_item xs 0) (\<lambda>x. safe_get_coding x 0)
      else Inr (JNull, JNull))"

text \<open>Value and unit of a \<^verbatim>\<open>valueQuantity\<close>, when the key is present.\<close>

definition quantity_of :: "json \<Rightarrow> (json \<times> json) option result" where
  "quantity_of obj =
     andthen (py_contains ''valueQuantity'' obj) (\<lambda>has.
     if has
     then andthen (py_getitem obj ''valueQuantity'') (\<lambda>value_qty.
          andthen (py_get value_qty ''value'' JNull) (\<lambda>v.
          andthen (py_get value_qty ''unit'' JNull) (\<lambda>u.
          Inr (Some (v, u)))))
     else Inr None)"

definition observation_record ::
  "json \<Rightarrow> json \<Rightarrow> json \<Rightarrow> json \<Rightarrow> json \<Rightarrow> json \<Rightarrow> json \<Rightarrow> pydict result" where
  "observation_record resource ident code display val unit category_code =
     andthen (py_get resource ''subject'' JNull) (\<lambda>subject.
     andthen (extract_reference_id subject) (\<lambda>patient_id.
     andthen (py_get resource ''effectiveDateTime'' JNull) (\<lambda>effective_date.
     Inr [(''id'', ident), (''patient_id'', patient_id), (''code'', code),
          (''display'', display), (''value'', val), (''unit'', unit),
          (''effective_date'', effective_date), (''category'', category_code)])))"

definition component_record ::
  "(json \<Rightarrow> string) \<Rightarrow> json \<Rightarrow> json \<Rightarrow> nat \<Rightarrow> json \<Rightarrow> pydict result" where
  "component_record fmt resource category_code idx component =
     andthen (py_get component ''code'' JNull) (\<lambda>c.
     andthen (safe_get_coding c 0) (\<lambda>(comp_code, comp_display).
     andthen (quantity_of component) (\<lambda>q.
     andthen (py_get resource ''id'' JNull) (\<lambda>ident.
     observation_record resource
       (JStr (py_str fmt ident @ ''-'' @ decimal idx))
       comp_code comp_display
       (case q of None \<Rightarrow> JNull | Some (v, u) \<Rightarrow> v)
       (case q of None \<Rightarrow> JNull | Some (v, u) \<Rightarrow> u)
       category_code))))"

fun component_loop ::
  "(json \<Rightarrow> string) \<Rightarrow> json \<Rightarrow> json \<Rightarrow> nat \<Rightarrow> json list \<Rightarrow> outcome" where
  "component_loop fmt resource category_code idx [] = ([], None)"
| "component_loop fmt resource category_code idx (component # rest) =
     (case component_record fmt resource category_code idx component of
        Inl e \<Rightarrow> ([], Some e)
      | Inr r \<Rightarrow>
          (case component_loop fmt resource category_code (Suc idx) rest of
             (rs, err) \<Rightarrow> (r # rs, err)))"

text \<open>The three value shapes, tried in the order of the source: a quantity, a coded
  value, a component list; a resource with none of them gives one record without value.\<close>

definition observation_records :: "(json \<Rightarrow> string) \<Rightarrow> json \<Rightarrow> outcome" where
  "observation_records fmt resource =
     (case andthen (py_get resource ''code'' JNull) (\<lambda>c.
           andthen (safe_get_coding c 0) (\<lambda>(code, display).
           andthen (py_get resource ''category'' (JArr [])) (\<lambda>category_list.
           andthen (first_coding category_list) (\<lambda>(category_code, _).
           andthen (py_contains ''valueQuantity'' resource) (\<lambda>has_quantity.
           andthen (py_contains ''valueCodeableConcept'' resource) (\<lambda>has_coded.
           andthen (py_contains ''component'' resource) (\<lambda>has_component.
           andthen (py_get resource ''id'' JNull) (\<lambda>ident.
           Inr (code, display, category_code, ident,
                has_quantity, has_coded, has_component))))))))) of
        Inl e \<Rightarrow> ([], Some e)
      | Inr (code, display, category_code, ident, has_quantity, has_coded, has_component) \<Rightarrow>
          if has_quantity then
            attempt (andthen (quantity_of resource) (\<lambda>q.
              andthen (observation_record resource ident code display
                         (case q of None \<Rightarrow> JNull | Some (v, u) \<Rightarrow> v)
                         (case q of None \<Rightarrow> JNull | Some (v, u) \<Rightarrow> u)
                         category_code) (\<lambda>r. Inr [r])))
          else if has_coded then
            attempt (andthen (py_getitem resource ''valueCodeableConcept'') (\<lambda>vcc.
              andthen (safe_get_coding vcc 0) (\<lambda>(_, val).
              andthen (observation_record resource ident code display val JNull
                         category_code) (\<lambda>r. Inr [r]))))
          else if has_component then
            (case andthen (py_get resource ''component'' (JArr [])) py_iter of
               Inl e \<Rightarrow> ([], Some e)
             | Inr components \<Rightarrow> component_loop fmt resource category_code 0 components)
          else
            attempt (andthen (observation_record resource ident code display JNull JNull
                                category_code) (\<lambda>r. Inr [r])))"

definition observation_entry :: "(json \<Rightarrow> string) \<Rightarrow> json \<Rightarrow> outcome" where
  "observation_entry fmt entry =
     (case resource_of_type ''Observation'' entry of
        Inl e \<Rightarrow> ([], Some e)
      | Inr None \<Rightarrow> ([], None)
      | Inr (Some resource) \<Rightarrow> observation_records fmt resource)"

definition encounter_record :: "json \<Rightarrow> pydict result" where
  "encounter_record resource =
     andthen (py_get resource ''class'' (JObj [])) (\<lambda>cls.
     andthen (py_get cls ''code'' JNull) (\<lambda>encounter_class.
     andthen (py_get resource ''type'' (JArr [])) (\<lambda>type_list.
     andthen (first_coding type_list) (\<lambda>(_, type_display).
     andthen (py_get resource ''period'' (JObj [])) (\<lambda>period.
     andthen (py_get resource ''id'' JNull) (\<lambda>ident.
     andthen (py_get resource ''subject'' JNull) (\<lambda>subject.
     andthen (extract_reference_id subject) (\<lambda>patient_id.
     andthen (py_get period ''start'' JNull) (\<lambda>start_date.
     andthen (py_get period ''end'' JNull) (\<lambda>end_date.
     Inr [(''id'', ident), (''patient_id'', patient_id),
          (''encounter_class'', encounter_class), (''type_display'', type_display),
          (''start_date'', start_date), (''end_date'', end_date)]))))))))))"

definition encounter_entry :: "json \<Rightarrow> outcome" where
  "encounter_entry entry =
     attempt (andthen (resource_of_type ''Encounter'' entry) (\<lambda>found.
       case found of
         None \<Rightarrow> Inr []
       | Some resource \<Rightarrow> andthen (encounter_record resource) (\<lambda>r. Inr [r])))"

definition medication_request_record :: "json \<Rightarrow> pydict result" where
  "medication_request_record resource =
     andthen (py_get resource ''medicationCodeableConcept'' JNull) (\<lambda>m.
     andthen (safe_get_coding m 0) (\<lambda>(med_code, med_display).
     andthen (py_get resource ''id'' JNull) (\<lambda>ident.
     andthen (py_get resource ''subject'' JNull) (\<lambda>subject.
     andthen (extract_reference_id subject) (\<lambda>patient_id.
     andthen (py_get resource ''authoredOn'' JNull) (\<lambda>authored_on.
     andthen (py_get resource ''status'' JNull) (\<lambda>status.
     Inr [(''id'', ident), (''patient_id'', patient_id), (''medication_code'', med_code),
          (''medication_display'', med_display), (''authored_on'', authored_on),
          (''status'', status)])))))))"

definition medication_request_entry :: "json \<Rightarrow> outcome" where
  "medication_request_entry entry =
     attempt (andthen (resource_of_type ''MedicationRequest'' entry) (\<lambda>found.
       case found of
         None \<Rightarrow> Inr []
       | Some resource \<Rightarrow> andthen (medication_request_record resource) (\<lambda>r. Inr [r])))"

text \<open>One file: reading it, then the entry loop over \<^verbatim>\<open>bundle.get('entry', [])\<close>.\<close>

definition parse_file :: "(json list \<Rightarrow> outcome) \<Rightarrow> source_file \<Rightarrow> outcome" where
  "parse_file loop f =
     (case snd f of
        Inl e \<Rightarrow> ([], Some e)
      | Inr bundle \<Rightarrow>
          (case andthen (py_get bundle ''entry'' (JArr [])) py_iter of
             Inl e \<Rightarrow> ([], Some e)
           | Inr entries \<Rightarrow> loop entries))"

text \<open>The loop over the files: the exception of a file is caught and printed with the
  path, and the loop goes on. The result is the data frame and the printed errors.\<close>

fun parse_files ::
  "(source_file \<Rightarrow> outcome) \<Rightarrow> source_file list \<Rightarrow> pydict list \<times> (string \<times> py_error) list" where
  "parse_files p [] = ([], [])"
| "parse_files p (f # fs) =
     (case p f of (rs, err) \<Rightarrow>
        (case parse_files p fs of (rs', errors) \<Rightarrow>
           (rs @ rs', (case err of None \<Rightarrow> [] | Some e \<Rightarrow> [(fst f, e)]) @ errors)))"

definition parse_patients :: "source_file list \<Rightarrow> pydict list \<times> (string \<times> py_error) list" where
  "parse_patients = parse_files (parse_file patient_entries)"

definition parse_conditions :: "source_file list \<Rightarrow> pydict list \<times> (string \<times> py_error) list" where
  "parse_conditions = parse_files (parse_file (entries_loop condition_entry))"

definition parse_observations ::
  "(json \<Rightarrow> string) \<Rightarrow> source_file list \<Rightarrow> pydict list \<times> (string \<times> py_error) list" where
  "parse_observations fmt = parse_files (parse_file (entries_loop (observation_entry fmt)))"

definition parse_encounters :: "source_file list \<Rightarrow> pydict list \<times> (string \<times> py_error) list" where
  "parse_encounters = parse_files (parse_file (entries_loop encounter_entry))"

definition parse_medication_requests ::
  "source_file list \<Rightarrow> pydict list \<times> (string \<times> py_error) list" where
  "parse_medication_requests = parse_files (parse_file (entries_loop medication_request_entry))"

section \<open>Schema, load and verification\<close>

text \<open>
  The store is an SQLite file with the five tables of \<^verbatim>\<open>create_tables\<close>. A connection sees
  its own uncommitted rows (\<open>working\<close>); the file holds the committed ones. Every statement
  that changes a row, every commit and every rollback is recorded in order (\<open>trace\<close>), so
  that what happened before what can be stated. A row is the record the parser appended;
  a column the record lacks is \<^verbatim>\<open>NULL\<close>.

  What the libraries do is taken as follows. \<^verbatim>\<open>DataFrame.to_sql\<close> on an \<^verbatim>\<open>sqlite3\<close>
  connection does nothing for a frame without rows; otherwise it inserts the rows in order
  inside one transaction, which it commits when every row went in, and rolls back before
  it re-raises when a statement failed. A statement fails when a cell is a list or a
  dictionary (it cannot be bound), when a \<^verbatim>\<open>NOT NULL\<close> column gets \<^verbatim>\<open>NULL\<close>, when a non-null
  primary key is already in the table, and, with \<^verbatim>\<open>PRAGMA foreign_keys = ON\<close>, when the
  referenced row does not exist. Cells are compared as they are: the conversion to text of
  the column affinity is not part of the model. The tables exist from the connection on,
  since the one caller creates them before any row is written.
\<close>

datatype table = Patients | Conditions | Observations | Encounters | MedicationRequests

type_synonym store = "table \<Rightarrow> pydict list"

datatype event = Inserted table pydict | Commit | Rollback

record connection =
  committed :: store
  working :: store
  foreign_keys :: bool
  trace :: "event list"

text \<open>The columns, the \<^verbatim>\<open>NOT NULL\<close> columns and the foreign keys of \<^verbatim>\<open>create_tables\<close>; the
  primary key of every table is \<^verbatim>\<open>id\<close>.\<close>

fun columns :: "table \<Rightarrow> string list" where
  "columns Patients =
     [''id'', ''given_name'', ''family_name'', ''gender'', ''birth_date'', ''race'',
      ''ethnicity'', ''city'', ''state'']"
| "columns Conditions =
     [''id'', ''patient_id'', ''code'', ''display'', ''clinical_status'', ''onset_date'']"
| "columns Observations =
     [''id'', ''patient_id'', ''code'', ''display'', ''value'', ''unit'', ''effective_date'',
      ''category'']"
| "columns Encounters =
     [''id'', ''patient_id'', ''encounter_class'', ''type_display'', ''start_date'',
      ''end_date'']"
| "columns MedicationRequests =
     [''id'', ''patient_id'', ''medication_code'', ''medication_display'', ''authored_on'',
      ''status'']"

fun not_null :: "table \<Rightarrow> string list" where
  "not_null Patients = []"
| "not_null Conditions = [''patient_id'']"
| "not_null Observations = [''patient_id'']"
| "not_null Encounters = [''patient_id'']"
| "not_null MedicationRequests = [''patient_id'']"

fun foreign_key :: "table \<Rightarrow> (string \<times> table \<times> string) list" where
  "foreign_key Patients = []"
| "foreign_key Conditions = [(''patient_id'', Patients, ''id'')]"
| "foreign_key Observations = [(''patient_id'', Patients, ''id'')]"
| "foreign_key Encounters = [(''patient_id'', Patients, ''id'')]"
| "foreign_key MedicationRequests = [(''patient_id'', Patients, ''id'')]"

definition primary_key :: "table \<Rightarrow> string" where
  "primary_key t = ''id''"

text \<open>The three things a connection does to its transaction.\<close>

definition execute_insert :: "table \<Rightarrow> pydict \<Rightarrow> connection \<Rightarrow> connection" where
  "execute_insert t r c =
     c\<lparr>working := (working c)(t := working c t @ [r]), trace := trace c @ [Inserted t r]\<rparr>"

definition commit :: "connection \<Rightarrow> connection" where
  "commit c = c\<lparr>committed := working c, trace := trace c @ [Commit]\<rparr>"

definition rollback :: "connection \<Rightarrow> connection" where
  "rollback c = c\<lparr>working := committed c, trace := trace c @ [Rollback]\<rparr>"

text \<open>Why the insert of one row fails, if it does.\<close>

fun bindable :: "json \<Rightarrow> bool" where
  "bindable (JArr xs) = False"
| "bindable (JObj d) = False"
| "bindable v = True"

definition insert_error :: "connection \<Rightarrow> table \<Rightarrow> pydict \<Rightarrow> py_error option" where
  "insert_error c t r =
     (if \<not> list_all (\<lambda>k. bindable (dict_get r k)) (map fst r) then Some InterfaceError
      else if list_ex (\<lambda>k. dict_get r k = JNull) (not_null t) then
        Some (IntegrityError NotNull)
      else if dict_get r (primary_key t) \<noteq> JNull
          \<and> dict_get r (primary_key t)
              \<in> set (map (\<lambda>x. dict_get x (primary_key t)) (working c t)) then
        Some (IntegrityError Unique)
      else if foreign_keys c
          \<and> list_ex (\<lambda>(k, p, pk). dict_get r k \<noteq> JNull
                \<and> dict_get r k \<notin> set (map (\<lambda>x. dict_get x pk) (working c p)))
              (foreign_key t) then
        Some (IntegrityError ForeignKey)
      else None)"

text \<open>A step of the load either raises or goes on; both leave a connection behind.\<close>

type_synonym step = "connection \<Rightarrow> py_error option \<times> connection"

definition then_run :: "step \<Rightarrow> step \<Rightarrow> step" where
  "then_run f g c = (case f c of (None, c') \<Rightarrow> g c' | (Some e, c') \<Rightarrow> (Some e, c'))"

fun executemany :: "table \<Rightarrow> pydict list \<Rightarrow> step" where
  "executemany t [] c = (None, c)"
| "executemany t (r # rs) c =
     (case insert_error c t r of
        Some e \<Rightarrow> (Some e, c)
      | None \<Rightarrow> executemany t rs (execute_insert t r c))"

text \<open>\<^verbatim>\<open>frame.to_sql(t, conn, if_exists='append', index=False)\<close>: a column of the frame that
  the table does not have fails the statement before any row.\<close>

definition to_sql :: "table \<Rightarrow> pydict list \<Rightarrow> step" where
  "to_sql t frame c =
     (if frame = [] then (None, c)
      else if \<not> list_all (\<lambda>r. list_all (\<lambda>k. k \<in> set (columns t)) (map fst r)) frame then
        (Some OperationalError, rollback c)
      else
        (case executemany t frame c of
           (None, c') \<Rightarrow> (None, commit c')
         | (Some e, c') \<Rightarrow> (Some e, rollback c')))"

text \<open>\<^verbatim>\<open>create_tables\<close>: the pragma, the five tables, a commit.\<close>

definition create_tables :: step where
  "create_tables c = (None, commit (c\<lparr>foreign_keys := True\<rparr>))"

definition create_indexes :: step where
  "create_indexes c = (None, commit c)"

text \<open>\<^verbatim>\<open>load_data\<close>: the five frames in the order of the source, then a commit; any
  exception is answered by a rollback and raised again.\<close>

definition load_data :: "(table \<Rightarrow> pydict list) \<Rightarrow> step" where
  "load_data dataframes c =
     (case then_run (to_sql Patients (dataframes Patients))
          (then_run (to_sql Conditions (dataframes Conditions))
          (then_run (to_sql Observations (dataframes Observations))
          (then_run (to_sql Encounters (dataframes Encounters))
          (then_run (to_sql MedicationRequests (dataframes MedicationRequests))
          (\<lambda>c'. (None, commit c')))))) c of
        (None, c') \<Rightarrow> (None, c')
      | (Some e, c') \<Rightarrow> (Some e, rollback c'))"

text \<open>\<^verbatim>\<open>verify_load\<close>: the row count of every table against the length of its frame, then
  the sample query, which has one row for each of the first five patient identifiers.
  It only reads.\<close>

definition sample_query :: "connection \<Rightarrow> json list" where
  "sample_query c = take 5 (remdups (map (\<lambda>p. dict_get p ''id'') (working c Patients)))"

definition verify_load :: "(table \<Rightarrow> pydict list) \<Rightarrow> step" where
  "verify_load dataframes c =
     (if \<not> list_all (\<lambda>t. length (working c t) = length (dataframes t))
            [Patients, Conditions, Observations, Encounters, MedicationRequests] then
        (Some RowCountMismatch, c)
      else if sample_query c = [] then (Some ForeignKeyTestFailed, c)
      else (None, c))"

text \<open>\<^verbatim>\<open>main\<close> of the parser module: the five frames of one set of files.\<close>

fun parse_fhir_data :: "(json \<Rightarrow> string) \<Rightarrow> source_file list \<Rightarrow> table \<Rightarrow> pydict list" where
  "parse_fhir_data fmt files Patients = fst (parse_patients files)"
| "parse_fhir_data fmt files Conditions = fst (parse_conditions files)"
| "parse_fhir_data fmt files Observations = fst (parse_observations fmt files)"
| "parse_fhir_data fmt files Encounters = fst (parse_encounters files)"
| "parse_fhir_data fmt files MedicationRequests = fst (parse_medication_requests files)"

text \<open>The database file is absent (\<open>None\<close>) or holds the committed rows. Connecting to an
  absent file starts from empty tables; closing leaves the committed rows in the file.\<close>

definition connect :: "store option \<Rightarrow> connection" where
  "connect db =
     \<lparr>committed = (case db of None \<Rightarrow> (\<lambda>t. []) | Some s \<Rightarrow> s),
      working = (case db of None \<Rightarrow> (\<lambda>t. []) | Some s \<Rightarrow> s),
      foreign_keys = False, trace = []\<rparr>"

definition close :: "connection \<Rightarrow> store option" where
  "close c = Some (committed c)"

text \<open>\<^verbatim>\<open>main\<close> of the loader: an existing file is removed, the files are parsed, and on a
  new connection the tables are created, the frames loaded, the indexes created and the
  load verified. An exception is printed and raised again; the connection is closed in
  every case. The result is the exception, if any, and the file left behind.\<close>

definition main :: "(json \<Rightarrow> string) \<Rightarrow> source_file list \<Rightarrow> store option \<Rightarrow> py_error option \<times> store option" where
  "main fmt files db =
     (let db' = (if db \<noteq> None then None else db);
          dataframes = parse_fhir_data fmt files;
          conn = connect db'
      in case then_run create_tables
               (then_run (load_data dataframes)
               (then_run create_indexes (verify_load dataframes))) conn of
           (err, conn') \<Rightarrow> (err, close conn'))"

section \<open>Shapes of the input\<close>

text \<open>
  The fields the extractors read are optional at every level. The shape predicates say
  what a field holds when it is present: a reference object holds a string, a codeable
  concept a list of codings, a patient resource a list of extensions whose nested
  extensions are mappings. \<open>dict_get\<close> is \<^verbatim>\<open>d.get(k)\<close> on a dictionary.
\<close>

fun is_str :: "json \<Rightarrow> bool" where
  "is_str (JStr s) = True"
| "is_str _ = False"

fun is_obj :: "json \<Rightarrow> bool" where
  "is_obj (JObj d) = True"
| "is_obj _ = False"

fun list_of :: "(json \<Rightarrow> bool) \<Rightarrow> json \<Rightarrow> bool" where
  "list_of P (JArr xs) = list_all P xs"
| "list_of P _ = False"

definition absent_or :: "(json \<Rightarrow> bool) \<Rightarrow> pydict \<Rightarrow> string \<Rightarrow> bool" where
  "absent_or P d k = (case map_of d k of None \<Rightarrow> True | Some v \<Rightarrow> P v)"

fun reference_shape :: "json \<Rightarrow> bool" where
  "reference_shape JNull = True"
| "reference_shape (JObj d) = absent_or is_str d ''reference''"
| "reference_shape _ = False"

fun concept_shape :: "json \<Rightarrow> bool" where
  "concept_shape JNull = True"
| "concept_shape (JObj d) = absent_or (list_of is_obj) d ''coding''"
| "concept_shape _ = False"

fun extension_shape :: "json \<Rightarrow> bool" where
  "extension_shape (JObj d) =
     (absent_or is_str d ''url'' \<and> absent_or (list_of is_obj) d ''extension'')"
| "extension_shape _ = False"

fun patient_shape :: "json \<Rightarrow> bool" where
  "patient_shape (JObj d) = absent_or (list_of extension_shape) d ''extension''"
| "patient_shape _ = False"

text \<open>An extension cut off below its head: its nested list is missing or empty.\<close>

fun cut_extension :: "json \<Rightarrow> bool" where
  "cut_extension (JObj d) =
     (absent_or is_str d ''url'' \<and> absent_or (\<lambda>v. v = JArr []) d ''extension'')"
| "cut_extension _ = False"

text \<open>The condition under which the specification lets the coded-concept resolver answer
  with the null pair: the coding list is absent, empty, or too short for the index.\<close>

fun no_entry_at :: "json list option \<Rightarrow> int \<Rightarrow> bool" where
  "no_entry_at None i = True"
| "no_entry_at (Some xs) i = (xs = [] \<or> int (length xs) \<le> i)"

text \<open>
  What the search for a marked extension passes over. An extension is unmarked when its
  \<^verbatim>\<open>url\<close> is missing or a string without the marker; a nested extension is not the text
  entry when it is a mapping whose \<^verbatim>\<open>url\<close> is missing or is not \<^verbatim>\<open>text\<close>; a marked extension
  is without text when its nested list is missing or holds no text entry.
\<close>

fun unmarked :: "string \<Rightarrow> json \<Rightarrow> bool" where
  "unmarked marker (JObj d) =
     (case map_of d ''url'' of
        None \<Rightarrow> marker \<noteq> []
      | Some (JStr s) \<Rightarrow> \<not> sublist marker s
      | Some v \<Rightarrow> False)"
| "unmarked marker v = False"

fun not_text :: "json \<Rightarrow> bool" where
  "not_text (JObj e) = (map_of e ''url'' \<noteq> Some (JStr ''text''))"
| "not_text v = False"

fun marked :: "string \<Rightarrow> pydict \<Rightarrow> bool" where
  "marked marker d =
     (case map_of d ''url'' of
        None \<Rightarrow> marker = []
      | Some (JStr s) \<Rightarrow> sublist marker s
      | Some v \<Rightarrow> False)"

fun textless :: "string \<Rightarrow> json \<Rightarrow> bool" where
  "textless marker (JObj d) =
     (marked marker d
      \<and> (case map_of d ''extension'' of
           None \<Rightarrow> True
         | Some (JArr ys) \<Rightarrow> list_all not_text ys
         | Some v \<Rightarrow> False))"
| "textless marker v = False"

definition passed_over :: "string \<Rightarrow> json \<Rightarrow> bool" where
  "passed_over marker x = (unmarked marker x \<or> textless marker x)"

section \<open>Records the parsers are expected to emit\<close>

text \<open>
  The row of an observation, from its parts, and the row of the \<open>k\<close>-th component of a
  multi-component observation: the identifier is the parent's followed by a dash and
  \<open>k\<close>; patient reference, category and effective date are the parent's; code, display,
  value and unit are the component's own.
\<close>

definition observation_row ::
  "json \<Rightarrow> json \<Rightarrow> json \<Rightarrow> json \<Rightarrow> json \<Rightarrow> json \<Rightarrow> json \<Rightarrow> json \<Rightarrow> pydict" where
  "observation_row ident patient_id code display val unit effective_date category_code =
     [(''id'', ident), (''patient_id'', patient_id), (''code'', code),
      (''display'', display), (''value'', val), (''unit'', unit),
      (''effective_date'', effective_date), (''category'', category_code)]"

definition quantity_value :: "pydict \<Rightarrow> json" where
  "quantity_value c =
     (case map_of c ''valueQuantity'' of Some (JObj q) \<Rightarrow> dict_get q ''value'' | _ \<Rightarrow> JNull)"

definition quantity_unit :: "pydict \<Rightarrow> json" where
  "quantity_unit c =
     (case map_of c ''valueQuantity'' of Some (JObj q) \<Rightarrow> dict_get q ''unit'' | _ \<Rightarrow> JNull)"

definition concept_code :: "json \<Rightarrow> json" where
  "concept_code c = (case safe_get_coding c 0 of Inr (code, display) \<Rightarrow> code | Inl e \<Rightarrow> JNull)"

definition concept_display :: "json \<Rightarrow> json" where
  "concept_display c =
     (case safe_get_coding c 0 of Inr (code, display) \<Rightarrow> display | Inl e \<Rightarrow> JNull)"

fun fanout_row ::
  "(json \<Rightarrow> string) \<Rightarrow> pydict \<Rightarrow> json \<Rightarrow> json \<Rightarrow> nat \<times> json \<Rightarrow> pydict" where
  "fanout_row fmt res patient_id category_code (k, JObj c) =
     observation_row
       (JStr (py_str fmt (dict_get res ''id'') @ ''-'' @ decimal k))
       patient_id
       (concept_code (dict_get c ''code'')) (concept_display (dict_get c ''code''))
       (quantity_value c) (quantity_unit c)
       (dict_get res ''effectiveDateTime'') category_code"
| "fanout_row fmt res patient_id category_code (k, _) = []"

text \<open>A component the component loop can read: a mapping whose code is a codeable
  concept and whose quantity, when present, is a mapping.\<close>

fun component_shape :: "json \<Rightarrow> bool" where
  "component_shape (JObj c) =
     (concept_shape (dict_get c ''code'') \<and> absent_or is_obj c ''valueQuantity'')"
| "component_shape _ = False"

section \<open>Example documents\<close>











text \<open>A race extension whose first text entry has no value, and an ethnicity extension
  whose value sits in an entry without \<^verbatim>\<open>url\<close>.\<close>

definition race_extension :: pydict where
  "race_extension =
     [(''url'', JStr ''http://hl7.org/fhir/us/core/StructureDefinition/us-core-race''),
      (''extension'', JArr [JObj [(''valueCoding'', JObj [(''code'', JStr ''2106-3'')])],
                           JObj [(''url'', JStr ''ombCategory'')],
                           JObj [(''url'', JStr ''text'')],
                           JObj [(''url'', JStr ''text''), (''valueString'', JStr ''White'')]])]"

definition ethnicity_extension :: pydict where
  "ethnicity_extension =
     [(''url'', JStr ''http://hl7.org/fhir/us/core/StructureDefinition/us-core-ethnicity''),
      (''extension'', JArr [JObj [(''url'', JStr ''ombCategory'')],
                           JObj [(''valueString'', JStr ''Not Hispanic or Latino'')]])]"

section \<open>Properties of the value extractors\<close>

lemma andthen_Inr [simp]: "andthen (Inr x) f = f x"
  by (simp add: andthen_def)

lemma andthen_Inl [simp]: "andthen (Inl e) f = Inl e"
  by (simp add: andthen_def)

lemma py_get_obj: "py_get (JObj d) k v = Inr (case map_of d k of None \<Rightarrow> v | Some w \<Rightarrow> w)"
  by simp

lemma reference_total: "reference_shape r \<Longrightarrow> \<exists>v. extract_reference_id r = Inr v"
  apply (cases r)
  apply (auto simp: extract_reference_id_def absent_or_def split: option.splits)
  subgoal for d v by (cases v) auto
  done

lemma reference_missing:
  "map_of d ''reference'' = None \<Longrightarrow>
   extract_reference_id (JObj d) = Inr (if d = [] then JNull else JStr '''')"
  by (simp add: extract_reference_id_def)

lemma coding_null_cases:
  "safe_get_coding JNull i = Inr (JNull, JNull)"
  "safe_get_coding (JObj []) i = Inr (JNull, JNull)"
  "map_of d ''coding'' = None \<Longrightarrow> safe_get_coding (JObj d) i = Inr (JNull, JNull)"
  "map_of d ''coding'' = Some (JArr []) \<Longrightarrow> safe_get_coding (JObj d) i = Inr (JNull, JNull)"
  "map_of d ''coding'' = Some (JArr xs) \<Longrightarrow> int (length xs) \<le> i \<Longrightarrow>
     safe_get_coding (JObj d) i = Inr (JNull, JNull)"
  by (auto simp: safe_get_coding_def)

lemma coding_entry:
  "map_of d ''coding'' = Some (JArr xs) \<Longrightarrow> 0 \<le> i \<Longrightarrow> i < int (length xs) \<Longrightarrow>
   xs ! nat i = JObj e \<Longrightarrow>
   safe_get_coding (JObj d) i = Inr (dict_get e ''code'', dict_get e ''display'')"
  by (auto simp: safe_get_coding_def seq_item_def dict_get_def Let_def)

lemma is_obj_nth: "list_all is_obj xs \<Longrightarrow> n < length xs \<Longrightarrow> \<exists>e. xs ! n = JObj e"
  by (cases "xs ! n") (auto simp: list_all_length dest: spec [of _ n])

lemma coding_total: "concept_shape c \<Longrightarrow> 0 \<le> i \<Longrightarrow> \<exists>v. safe_get_coding c i = Inr v"
proof (cases c)
  case (JObj d)
  assume shape: "concept_shape c" and i: "0 \<le> i"
  show ?thesis
  proof (cases "map_of d ''coding''")
    case None
    with JObj show ?thesis by (simp add: coding_null_cases)
  next
    case (Some v)
    with shape JObj obtain xs where v: "v = JArr xs" and objs: "list_all is_obj xs"
      by (cases v) (auto simp: absent_or_def)
    show ?thesis
    proof (cases "int (length xs) \<le> i")
      case True
      with Some v JObj show ?thesis by (simp add: coding_null_cases)
    next
      case False
      with i have "nat i < length xs" by linarith
      with objs obtain e where "xs ! nat i = JObj e" using is_obj_nth by blast
      with Some v JObj i False show ?thesis by (simp add: coding_entry)
    qed
  qed
qed (auto simp: safe_get_coding_def)

lemma find_text_total: "list_all is_obj xs \<Longrightarrow> \<exists>v. find_text xs = Inr v"
proof (induction xs)
  case Nil
  show ?case by simp
next
  case (Cons x xs)
  then obtain e where "x = JObj e" by (cases x) auto
  with Cons show ?case by auto
qed

lemma find_extension_total:
  "list_all extension_shape xs \<Longrightarrow> \<exists>v. find_extension marker xs = Inr v"
proof (induction xs)
  case Nil
  show ?case by simp
next
  case (Cons x xs)
  then obtain d where x: "x = JObj d" and url: "absent_or is_str d ''url''"
    and inner: "absent_or (list_of is_obj) d ''extension''"
    by (cases x) auto
  from Cons obtain w where rest: "find_extension marker xs = Inr w" by auto
  obtain s where s: "py_get x ''url'' (JStr []) = Inr (JStr s)"
    using url x by (cases "map_of d ''url''"; cases "the (map_of d ''url'')") (auto simp: absent_or_def)
  obtain ys where ys: "py_get x ''extension'' (JArr []) = Inr (JArr ys)" "list_all is_obj ys"
    using inner x by (cases "map_of d ''extension''"; cases "the (map_of d ''extension'')") (auto simp: absent_or_def)
  obtain f where f: "find_text ys = Inr f" using find_text_total ys(2) by blast
  show ?case using s ys(1) f rest by (cases f) auto
qed

lemma find_extension_cut:
  "list_all cut_extension xs \<Longrightarrow> find_extension marker xs = Inr JNull"
proof (induction xs)
  case Nil
  show ?case by simp
next
  case (Cons x xs)
  then obtain d where x: "x = JObj d" and url: "absent_or is_str d ''url''"
    and inner: "absent_or (\<lambda>v. v = JArr []) d ''extension''"
    by (cases x) auto
  obtain s where s: "py_get x ''url'' (JStr []) = Inr (JStr s)"
    using url x by (cases "map_of d ''url''"; cases "the (map_of d ''url'')") (auto simp: absent_or_def)
  have ys: "py_get x ''extension'' (JArr []) = Inr (JArr [])"
    using inner x by (cases "map_of d ''extension''") (auto simp: absent_or_def)
  show ?case using s ys Cons by auto
qed

lemma extensions_of_patient:
  "patient_shape p \<Longrightarrow>
   \<exists>xs. andthen (py_get p ''extension'' (JArr [])) py_iter = Inr xs \<and> list_all extension_shape xs"
  apply (cases p) apply (auto simp: absent_or_def split: option.splits)
  subgoal for d v by (cases v) auto
  done

lemma race_total: "patient_shape p \<Longrightarrow> \<exists>v. extract_race p = Inr v"
  using extensions_of_patient [of p] find_extension_total
  by (fastforce simp: extract_race_def andthen_def split: sum.splits)

lemma ethnicity_total: "patient_shape p \<Longrightarrow> \<exists>v. extract_ethnicity p = Inr v"
  using extensions_of_patient [of p] find_extension_total
  by (fastforce simp: extract_ethnicity_def andthen_def split: sum.splits)

lemma race_null_cases:
  "extract_race (JObj []) = Inr JNull"
  "map_of d ''extension'' = None \<Longrightarrow> extract_race (JObj d) = Inr JNull"
  "map_of d ''extension'' = Some (JArr []) \<Longrightarrow> extract_race (JObj d) = Inr JNull"
  "map_of d ''extension'' = Some (JArr xs) \<Longrightarrow> list_all cut_extension xs \<Longrightarrow>
     extract_race (JObj d) = Inr JNull"
  by (auto simp: extract_race_def find_extension_cut)

lemma ethnicity_null_cases:
  "extract_ethnicity (JObj []) = Inr JNull"
  "map_of d ''extension'' = None \<Longrightarrow> extract_ethnicity (JObj d) = Inr JNull"
  "map_of d ''extension'' = Some (JArr []) \<Longrightarrow> extract_ethnicity (JObj d) = Inr JNull"
  "map_of d ''extension'' = Some (JArr xs) \<Longrightarrow> list_all cut_extension xs \<Longrightarrow>
     extract_ethnicity (JObj d) = Inr JNull"
  by (auto simp: extract_ethnicity_def find_extension_cut)

lemma find_text_none: "list_all not_text ys \<Longrightarrow> find_text ys = Inr None"
proof (induction ys)
  case Nil
  show ?case by simp
next
  case (Cons y ys)
  then obtain e where "y = JObj e" by (cases y) auto
  with Cons show ?case by (auto split: option.splits)
qed

lemma find_text_hit:
  "list_all not_text pre \<Longrightarrow> map_of e ''url'' = Some (JStr ''text'') \<Longrightarrow>
   find_text (pre @ JObj e # post) = Inr (Some (dict_get e ''valueString''))"
proof (induction pre)
  case Nil
  then show ?case by (simp add: dict_get_def)
next
  case (Cons y ys)
  then obtain d where "y = JObj d" by (cases y) auto
  with Cons show ?case by (auto split: option.splits)
qed

lemma marked_url:
  "marked marker d \<Longrightarrow>
   andthen (py_get (JObj d) ''url'' (JStr '''')) (py_contains marker) = Inr True"
  by (auto split: option.splits json.splits)

lemma unmarked_url:
  "unmarked marker (JObj d) \<Longrightarrow>
   andthen (py_get (JObj d) ''url'' (JStr '''')) (py_contains marker) = Inr False"
  by (auto split: option.splits json.splits)

lemma andthen_assoc: "andthen (andthen m f) g = andthen m (\<lambda>x. andthen (f x) g)"
  by (cases m) simp_all

lemma find_extension_Cons:
  "find_extension marker (ext # rest) =
     andthen (andthen (py_get ext ''url'' (JStr '''')) (py_contains marker)) (\<lambda>hit.
     if hit
     then andthen (py_get ext ''extension'' (JArr [])) (\<lambda>inner_extensions.
          andthen (py_iter inner_extensions) (\<lambda>inner.
          andthen (find_text inner) (\<lambda>found.
          case found of Some v \<Rightarrow> Inr v | None \<Rightarrow> find_extension marker rest)))
     else find_extension marker rest)"
  by (simp add: andthen_assoc)

lemma find_extension_skip:
  assumes "passed_over marker x"
  shows "find_extension marker (x # rest) = find_extension marker rest"
proof -
  from assms obtain d where x: "x = JObj d" by (cases x) (auto simp: passed_over_def)
  show ?thesis
  proof (cases "unmarked marker x")
    case True
    then show ?thesis
      unfolding x find_extension_Cons by (simp only: unmarked_url) simp
  next
    case False
    with assms x have m: "marked marker d"
      and inner: "case map_of d ''extension'' of None \<Rightarrow> True
                  | Some (JArr ys) \<Rightarrow> list_all not_text ys | Some v \<Rightarrow> False"
      by (auto simp: passed_over_def)
    obtain ys where ys: "andthen (py_get (JObj d) ''extension'' (JArr [])) py_iter = Inr ys"
      and nt: "list_all not_text ys"
      using inner by (auto split: option.splits json.splits)
    have "andthen (py_get (JObj d) ''extension'' (JArr [])) (\<lambda>inner_extensions.
          andthen (py_iter inner_extensions) (\<lambda>inner.
          andthen (find_text inner) (\<lambda>found.
          case found of Some v \<Rightarrow> Inr v | None \<Rightarrow> find_extension marker rest)))
        = andthen (andthen (py_get (JObj d) ''extension'' (JArr [])) py_iter) (\<lambda>inner.
          andthen (find_text inner) (\<lambda>found.
          case found of Some v \<Rightarrow> Inr v | None \<Rightarrow> find_extension marker rest))"
      by (simp add: andthen_assoc)
    also have "\<dots> = find_extension marker rest"
      by (simp only: ys) (simp add: find_text_none [OF nt])
    finally show ?thesis
      unfolding x find_extension_Cons by (simp only: marked_url [OF m]) simp
  qed
qed

lemma find_extension_passed:
  "list_all (passed_over marker) xs \<Longrightarrow> find_extension marker xs = Inr JNull"
proof (induction xs)
  case Nil
  show ?case by simp
next
  case (Cons x xs)
  from Cons.prems have x: "passed_over marker x" and xs: "list_all (passed_over marker) xs"
    by simp_all
  show ?case
    unfolding find_extension_skip [OF x] using xs by (rule Cons.IH)
qed

lemma find_extension_hit:
  assumes "list_all (passed_over marker) pre"
    and "marked marker d"
    and "map_of d ''extension'' = Some (JArr (ipre @ JObj e # ipost))"
    and "list_all not_text ipre"
    and "map_of e ''url'' = Some (JStr ''text'')"
  shows "find_extension marker (pre @ JObj d # post) = Inr (dict_get e ''valueString'')"
  using assms(1)
proof (induction pre)
  case Nil
  have "andthen (py_get (JObj d) ''extension'' (JArr [])) (\<lambda>inner_extensions.
          andthen (py_iter inner_extensions) (\<lambda>inner.
          andthen (find_text inner) (\<lambda>found.
          case found of Some v \<Rightarrow> Inr v | None \<Rightarrow> find_extension marker post)))
        = Inr (dict_get e ''valueString'')"
    using assms(3) by (simp add: find_text_hit [OF assms(4,5)])
  then show ?case
    unfolding append_Nil find_extension_Cons by (simp only: marked_url [OF assms(2)]) simp
next
  case (Cons x xs)
  from Cons.prems have x: "passed_over marker x" and xs: "list_all (passed_over marker) xs"
    by simp_all
  show ?case
    unfolding append_Cons find_extension_skip [OF x] using xs by (rule Cons.IH)
qed

lemma race_passed_over:
  "map_of d ''extension'' = Some (JArr ws) \<Longrightarrow> list_all (passed_over ''us-core-race'') ws \<Longrightarrow>
   extract_race (JObj d) = Inr JNull"
  by (simp add: extract_race_def find_extension_passed)

lemma ethnicity_passed_over:
  "map_of d ''extension'' = Some (JArr ws) \<Longrightarrow>
   list_all (passed_over ''us-core-ethnicity'') ws \<Longrightarrow>
   extract_ethnicity (JObj d) = Inr JNull"
  by (simp add: extract_ethnicity_def find_extension_passed)

lemma race_text:
  assumes "map_of d ''extension'' = Some (JArr (pre @ JObj x # post))"
    and "list_all (passed_over ''us-core-race'') pre"
    and "marked ''us-core-race'' x"
    and "map_of x ''extension'' = Some (JArr (ipre @ JObj t # ipost))"
    and "list_all not_text ipre"
    and "map_of t ''url'' = Some (JStr ''text'')"
  shows "extract_race (JObj d) = Inr (dict_get t ''valueString'')"
  using assms(1) by (simp add: extract_race_def find_extension_hit [OF assms(2-6)])

lemma ethnicity_text:
  assumes "map_of d ''extension'' = Some (JArr (pre @ JObj x # post))"
    and "list_all (passed_over ''us-core-ethnicity'') pre"
    and "marked ''us-core-ethnicity'' x"
    and "map_of x ''extension'' = Some (JArr (ipre @ JObj t # ipost))"
    and "list_all not_text ipre"
    and "map_of t ''url'' = Some (JStr ''text'')"
  shows "extract_ethnicity (JObj d) = Inr (dict_get t ''valueString'')"
  using assms(1) by (simp add: extract_ethnicity_def find_extension_hit [OF assms(2-6)])

text \<open>
  C5. Every value extractor is total on truncated or absent nested input. On an input of
  the expected shape, with any optional level missing, the reference resolver, the
  coded-concept resolver (for an index from 0 on) and the race and ethnicity resolvers
  return a value and raise nothing. On an absent input, an empty mapping, a mapping
  without the expected key, an empty list, or a list with no entry at the requested
  index, the value returned is null (the empty string for a reference object that has
  other keys but no reference). The same holds below the first level: a coding entry
  gives null for the code or the display it lacks; extensions without \<^verbatim>\<open>url\<close>, with another
  \<^verbatim>\<open>url\<close>, without nested list, or whose nested entries lack the \<^verbatim>\<open>url\<close> or are not the text
  entry, give null for race and ethnicity; and the first text entry of the first marked
  extension that has one decides, with null when it lacks its \<^verbatim>\<open>valueString\<close>.
\<close>

theorem extractors_null_safe:
  "(reference_shape r \<longrightarrow> (\<exists>v. extract_reference_id r = Inr v))
   \<and> extract_reference_id JNull = Inr JNull
   \<and> extract_reference_id (JObj []) = Inr JNull
   \<and> (map_of d1 ''reference'' = None \<longrightarrow>
        extract_reference_id (JObj d1) = Inr (if d1 = [] then JNull else JStr ''''))
   \<and> (concept_shape c \<and> 0 \<le> i \<longrightarrow> (\<exists>v. safe_get_coding c i = Inr v))
   \<and> safe_get_coding JNull i = Inr (JNull, JNull)
   \<and> safe_get_coding (JObj []) i = Inr (JNull, JNull)
   \<and> (map_of d2 ''coding'' = None \<longrightarrow> safe_get_coding (JObj d2) i = Inr (JNull, JNull))
   \<and> (map_of d3 ''coding'' = Some (JArr []) \<longrightarrow>
        safe_get_coding (JObj d3) i = Inr (JNull, JNull))
   \<and> (map_of d4 ''coding'' = Some (JArr xs) \<and> int (length xs) \<le> i \<longrightarrow>
        safe_get_coding (JObj d4) i = Inr (JNull, JNull))
   \<and> (map_of d8 ''coding'' = Some (JArr zs) \<and> 0 \<le> i \<and> i < int (length zs)
        \<and> zs ! nat i = JObj e \<longrightarrow>
        safe_get_coding (JObj d8) i
          = Inr (case map_of e ''code'' of None \<Rightarrow> JNull | Some v \<Rightarrow> v,
                 case map_of e ''display'' of None \<Rightarrow> JNull | Some v \<Rightarrow> v))
   \<and> (patient_shape p \<longrightarrow>
        (\<exists>v. extract_race p = Inr v) \<and> (\<exists>v. extract_ethnicity p = Inr v))
   \<and> extract_race (JObj []) = Inr JNull
   \<and> extract_ethnicity (JObj []) = Inr JNull
   \<and> (map_of d5 ''extension'' = None \<longrightarrow>
        extract_race (JObj d5) = Inr JNull \<and> extract_ethnicity (JObj d5) = Inr JNull)
   \<and> (map_of d6 ''extension'' = Some (JArr []) \<longrightarrow>
        extract_race (JObj d6) = Inr JNull \<and> extract_ethnicity (JObj d6) = Inr JNull)
   \<and> (map_of d7 ''extension'' = Some (JArr ys) \<and> list_all cut_extension ys \<longrightarrow>
        extract_race (JObj d7) = Inr JNull \<and> extract_ethnicity (JObj d7) = Inr JNull)
   \<and> (map_of d9 ''extension'' = Some (JArr ws) \<longrightarrow>
        (list_all (passed_over ''us-core-race'') ws \<longrightarrow> extract_race (JObj d9) = Inr JNull)
        \<and> (list_all (passed_over ''us-core-ethnicity'') ws \<longrightarrow>
             extract_ethnicity (JObj d9) = Inr JNull))
   \<and> (map_of d10 ''extension'' = Some (JArr (pre @ JObj x # post))
        \<and> map_of x ''extension'' = Some (JArr (ipre @ JObj t # ipost))
        \<and> list_all not_text ipre \<and> map_of t ''url'' = Some (JStr ''text'') \<longrightarrow>
        (list_all (passed_over ''us-core-race'') pre \<and> marked ''us-core-race'' x \<longrightarrow>
           extract_race (JObj d10)
             = Inr (case map_of t ''valueString'' of None \<Rightarrow> JNull | Some v \<Rightarrow> v))
        \<and> (list_all (passed_over ''us-core-ethnicity'') pre \<and> marked ''us-core-ethnicity'' x \<longrightarrow>
           extract_ethnicity (JObj d10)
             = Inr (case map_of t ''valueString'' of None \<Rightarrow> JNull | Some v \<Rightarrow> v)))"
proof -
  have ref: "extract_reference_id JNull = Inr JNull" "extract_reference_id (JObj []) = Inr JNull"
    by (simp_all add: extract_reference_id_def)
  have old: "(reference_shape r \<longrightarrow> (\<exists>v. extract_reference_id r = Inr v))
   \<and> (map_of d1 ''reference'' = None \<longrightarrow>
        extract_reference_id (JObj d1) = Inr (if d1 = [] then JNull else JStr ''''))
   \<and> (concept_shape c \<and> 0 \<le> i \<longrightarrow> (\<exists>v. safe_get_coding c i = Inr v))
   \<and> (map_of d2 ''coding'' = None \<longrightarrow> safe_get_coding (JObj d2) i = Inr (JNull, JNull))
   \<and> (map_of d3 ''coding'' = Some (JArr []) \<longrightarrow>
        safe_get_coding (JObj d3) i = Inr (JNull, JNull))
   \<and> (map_of d4 ''coding'' = Some (JArr xs) \<and> int (length xs) \<le> i \<longrightarrow>
        safe_get_coding (JObj d4) i = Inr (JNull, JNull))
   \<and> (patient_shape p \<longrightarrow>
        (\<exists>v. extract_race p = Inr v) \<and> (\<exists>v. extract_ethnicity p = Inr v))
   \<and> (map_of d5 ''extension'' = None \<longrightarrow>
        extract_race (JObj d5) = Inr JNull \<and> extract_ethnicity (JObj d5) = Inr JNull)
   \<and> (map_of d6 ''extension'' = Some (JArr []) \<longrightarrow>
        extract_race (JObj d6) = Inr JNull \<and> extract_ethnicity (JObj d6) = Inr JNull)
   \<and> (map_of d7 ''extension'' = Some (JArr ys) \<and> list_all cut_extension ys \<longrightarrow>
        extract_race (JObj d7) = Inr JNull \<and> extract_ethnicity (JObj d7) = Inr JNull)"
    using reference_total [of r] reference_missing [of d1] coding_total [of c i]
      coding_null_cases(3) [of d2 i] coding_null_cases(4) [of d3 i]
      coding_null_cases(5) [of d4 xs i] race_total [of p] ethnicity_total [of p]
      race_null_cases(2) [of d5] ethnicity_null_cases(2) [of d5]
      race_null_cases(3) [of d6] ethnicity_null_cases(3) [of d6]
      race_null_cases(4) [of d7 ys] ethnicity_null_cases(4) [of d7 ys]
    by simp
  have entry: "map_of d8 ''coding'' = Some (JArr zs) \<and> 0 \<le> i \<and> i < int (length zs)
        \<and> zs ! nat i = JObj e \<longrightarrow>
        safe_get_coding (JObj d8) i
          = Inr (case map_of e ''code'' of None \<Rightarrow> JNull | Some v \<Rightarrow> v,
                 case map_of e ''display'' of None \<Rightarrow> JNull | Some v \<Rightarrow> v)"
    using coding_entry [of d8 zs i e] by (simp add: dict_get_def)
  have passed: "map_of d9 ''extension'' = Some (JArr ws) \<longrightarrow>
        (list_all (passed_over ''us-core-race'') ws \<longrightarrow> extract_race (JObj d9) = Inr JNull)
        \<and> (list_all (passed_over ''us-core-ethnicity'') ws \<longrightarrow>
             extract_ethnicity (JObj d9) = Inr JNull)"
    using race_passed_over [of d9 ws] ethnicity_passed_over [of d9 ws] by simp
  have hit: "map_of d10 ''extension'' = Some (JArr (pre @ JObj x # post))
        \<and> map_of x ''extension'' = Some (JArr (ipre @ JObj t # ipost))
        \<and> list_all not_text ipre \<and> map_of t ''url'' = Some (JStr ''text'') \<longrightarrow>
        (list_all (passed_over ''us-core-race'') pre \<and> marked ''us-core-race'' x \<longrightarrow>
           extract_race (JObj d10)
             = Inr (case map_of t ''valueString'' of None \<Rightarrow> JNull | Some v \<Rightarrow> v))
        \<and> (list_all (passed_over ''us-core-ethnicity'') pre \<and> marked ''us-core-ethnicity'' x \<longrightarrow>
           extract_ethnicity (JObj d10)
             = Inr (case map_of t ''valueString'' of None \<Rightarrow> JNull | Some v \<Rightarrow> v))"
    using race_text [of d10 pre x post ipre t ipost]
      ethnicity_text [of d10 pre x post ipre t ipost]
    by (simp add: dict_get_def)
  from old entry passed hit show ?thesis
    by (simp only: ref coding_null_cases(1,2) race_null_cases(1) ethnicity_null_cases(1))
       simp
qed

theorem extractors_null_safe_witness:
  "reference_shape (JObj [(''display'', JStr ''Jane Doe'')])
   \<and> extract_reference_id (JObj [(''display'', JStr ''Jane Doe'')]) = Inr (JStr '''')
   \<and> concept_shape (JObj [(''coding'', JArr [JObj [(''code'', JStr ''E11'')]])])
   \<and> safe_get_coding (JObj [(''coding'', JArr [JObj [(''code'', JStr ''E11'')]])]) 1
       = Inr (JNull, JNull)
   \<and> safe_get_coding (JObj [(''text'', JStr ''Diabetes'')]) 1 = Inr (JNull, JNull)
   \<and> safe_get_coding (JObj [(''coding'', JArr [])]) 1 = Inr (JNull, JNull)
   \<and> safe_get_coding
        (JObj [(''coding'', JArr [JObj [(''code'', JStr ''E11'')],
                                 JObj [(''system'', JStr ''icd'')]])]) 1
       = Inr (JNull, JNull)
   \<and> patient_shape (JObj [(''extension'', JArr [JObj [(''url'', JStr ''us-core-race'')]])])
   \<and> extract_race (JObj [(''extension'', JArr [JObj [(''url'', JStr ''us-core-race'')]])])
       = Inr JNull
   \<and> extract_ethnicity (JObj [(''id'', JStr ''p1'')]) = Inr JNull
   \<and> extract_race (JObj [(''extension'', JArr [])]) = Inr JNull
   \<and> list_all (passed_over ''us-core-ethnicity'') [JObj [], JObj ethnicity_extension]
   \<and> extract_race (JObj [(''extension'', JArr [JObj [], JObj ethnicity_extension])])
       = Inr JNull
   \<and> extract_ethnicity (JObj [(''extension'', JArr [JObj [], JObj ethnicity_extension])])
       = Inr JNull
   \<and> marked ''us-core-race'' race_extension
   \<and> extract_race
        (JObj [(''extension'', JArr [JObj ethnicity_extension, JObj race_extension])])
       = Inr JNull"
  using extractors_null_safe
    [where r = "JObj [(''display'', JStr ''Jane Doe'')]"
       and ?d1.0 = "[(''display'', JStr ''Jane Doe'')]"
       and c = "JObj [(''coding'', JArr [JObj [(''code'', JStr ''E11'')]])]" and i = 1
       and ?d2.0 = "[(''text'', JStr ''Diabetes'')]" and ?d3.0 = "[(''coding'', JArr [])]"
       and ?d4.0 = "[(''coding'', JArr [JObj [(''code'', JStr ''E11'')]])]"
       and xs = "[JObj [(''code'', JStr ''E11'')]]"
       and ?d8.0 = "[(''coding'', JArr [JObj [(''code'', JStr ''E11'')],
                                       JObj [(''system'', JStr ''icd'')]])]"
       and zs = "[JObj [(''code'', JStr ''E11'')], JObj [(''system'', JStr ''icd'')]]"
       and e = "[(''system'', JStr ''icd'')]"
       and p = "JObj [(''extension'', JArr [JObj [(''url'', JStr ''us-core-race'')]])]"
       and ?d5.0 = "[(''id'', JStr ''p1'')]" and ?d6.0 = "[(''extension'', JArr [])]"
       and ?d7.0 = "[(''extension'', JArr [JObj [(''url'', JStr ''us-core-race'')]])]"
       and ys = "[JObj [(''url'', JStr ''us-core-race'')]]"
       and ?d9.0 = "[(''extension'', JArr [JObj [], JObj ethnicity_extension])]"
       and ws = "[JObj [], JObj ethnicity_extension]"
       and ?d10.0 = "[(''extension'', JArr [JObj ethnicity_extension, JObj race_extension])]"
       and pre = "[JObj ethnicity_extension]" and x = race_extension and post = "[]"
       and ipre = "[JObj [(''valueCoding'', JObj [(''code'', JStr ''2106-3'')])],
                    JObj [(''url'', JStr ''ombCategory'')]]"
       and t = "[(''url'', JStr ''text'')]"
       and ipost = "[JObj [(''url'', JStr ''text''), (''valueString'', JStr ''White'')]]"]
  by (simp add: absent_or_def passed_over_def race_extension_def ethnicity_extension_def
        sublist_Cons_right)

text \<open>
  C6 (as amended). For a codeable concept that is a mapping whose coding list, when
  present, is a list, and an index \<open>i\<close>: when the coding list is absent, empty or has no
  entry at index \<open>i\<close> (its length is at most \<open>i\<close>), the resolver returns the null pair;
  otherwise, for \<open>i\<close> from 0 on and an entry that is a mapping, it returns the code and
  the display of the \<open>i\<close>-th entry, each null when the entry has none. The null pair is
  therefore also the answer for an entry that has neither.
\<close>

theorem safe_get_coding_result:
  "(map_of d ''coding'' = None \<and> no_entry_at None i \<longrightarrow>
      safe_get_coding (JObj d) i = Inr (JNull, JNull))
   \<and> (map_of d ''coding'' = Some (JArr xs) \<and> no_entry_at (Some xs) i \<longrightarrow>
      safe_get_coding (JObj d) i = Inr (JNull, JNull))
   \<and> (map_of d ''coding'' = Some (JArr xs) \<and> \<not> no_entry_at (Some xs) i \<and> 0 \<le> i
        \<and> xs ! nat i = JObj e \<longrightarrow>
      safe_get_coding (JObj d) i = Inr (dict_get e ''code'', dict_get e ''display''))"
  using coding_null_cases(3) [of d i] coding_null_cases(4) [of d i]
    coding_null_cases(5) [of d xs i] coding_entry [of d xs i e]
  by auto

theorem safe_get_coding_result_witness:
  "safe_get_coding (JObj [(''text'', JStr ''Diabetes'')]) 0 = Inr (JNull, JNull)
   \<and> safe_get_coding
        (JObj [(''coding'', JArr [JObj [(''code'', JStr ''E11''), (''display'', JStr ''Diabetes'')],
                                 JObj [(''code'', JStr ''44054006'')]])]) 2
       = Inr (JNull, JNull)
   \<and> \<not> no_entry_at
          (Some [JObj [(''code'', JStr ''E11''), (''display'', JStr ''Diabetes'')],
                 JObj [(''code'', JStr ''44054006'')]]) 1
   \<and> safe_get_coding
        (JObj [(''coding'', JArr [JObj [(''code'', JStr ''E11''), (''display'', JStr ''Diabetes'')],
                                 JObj [(''code'', JStr ''44054006'')]])]) 1
       = Inr (JStr ''44054006'', JNull)"
  using safe_get_coding_result [of "[(''text'', JStr ''Diabetes'')]" 0]
    safe_get_coding_result
      [of "[(''coding'', JArr [JObj [(''code'', JStr ''E11''), (''display'', JStr ''Diabetes'')],
                               JObj [(''code'', JStr ''44054006'')]])]"
          2 "[JObj [(''code'', JStr ''E11''), (''display'', JStr ''Diabetes'')],
               JObj [(''code'', JStr ''44054006'')]]"]
    safe_get_coding_result
      [of "[(''coding'', JArr [JObj [(''code'', JStr ''E11''), (''display'', JStr ''Diabetes'')],
                               JObj [(''code'', JStr ''44054006'')]])]"
          1 "[JObj [(''code'', JStr ''E11''), (''display'', JStr ''Diabetes'')],
               JObj [(''code'', JStr ''44054006'')]]" "[(''code'', JStr ''44054006'')]"]
  by (simp add: dict_get_def)

text \<open>
  The claim as stated fails: a coding list holding one entry without code and display is
  present, not empty and long enough for index 0, and the resolver returns the null pair.
\<close>

theorem safe_get_coding_null_pair_counterexample:
  "safe_get_coding (JObj [(''coding'', JArr [JObj []])]) 0 = Inr (JNull, JNull)
   \<and> \<not> no_entry_at (Some [JObj []]) 0"
  by (simp add: safe_get_coding_def seq_item_def)

section \<open>Properties of the resource parsers\<close>






















section \<open>Properties of the observation parser\<close>






lemma fanout_row_fields:
  "component_shape x \<Longrightarrow>
   map_of (fanout_row fmt res pid cat (k, x)) ''id''
     = Some (JStr (py_str fmt (dict_get res ''id'') @ ''-'' @ decimal k))
   \<and> map_of (fanout_row fmt res pid cat (k, x)) ''patient_id'' = Some pid
   \<and> map_of (fanout_row fmt res pid cat (k, x)) ''category'' = Some cat
   \<and> map_of (fanout_row fmt res pid cat (k, x)) ''effective_date''
       = Some (dict_get res ''effectiveDateTime'')"
  by (cases x) (simp_all add: observation_row_def)










end
